theory Spec2Isabelle
  imports Main
begin

section \<open>The paper metadata store of server.py\<close>

text \<open>
  The theory embeds the four operations of \<^verbatim>\<open>server.py\<close> that work on the local,
  topic-partitioned store under \<^verbatim>\<open>PAPER_DIR = "papers"\<close>:
  \<^verbatim>\<open>search_papers\<close> (lines 17-73), \<^verbatim>\<open>extract_info\<close> (76-101),
  \<^verbatim>\<open>get_available_folders\<close> (106-132) and \<^verbatim>\<open>get_topic_papers\<close> (135-167).

  Scope of the model.
  \<^item> Python strings are \<^typ>\<open>string\<close>; one \<^typ>\<open>char\<close> is one code point, so the
    strings of the model are those over the code points U+0000 to U+00FF (ASCII and the
    Latin-1 supplement). On these \<^verbatim>\<open>str.lower\<close> works character by character and stays
    in the range, and the model follows it exactly. Strings with code points beyond
    U+00FF are outside the type.
  \<^item> The papers root is either absent or a directory. Its entries are kept in the order
    \<^verbatim>\<open>os.listdir\<close> enumerates them; an entry is a regular file or a directory, and a
    directory has, under the name \<^verbatim>\<open>papers_info.json\<close>, nothing, a regular file or a
    directory. A topic's derived name is one path component of the root.
  \<^item> The bytes of a regular file are either not text in the encoding \<^verbatim>\<open>open\<close> reads
    with (reading raises \<^verbatim>\<open>UnicodeDecodeError\<close>), or text that \<^verbatim>\<open>json.load\<close> rejects
    with \<^verbatim>\<open>JSONDecodeError\<close>, or the JSON text of an object whose members are paper
    records of the five-field shape \<^verbatim>\<open>search_papers\<close> writes. JSON of any other shape,
    permissions and I/O failures of the device are outside the model.
  \<^item> The remote arXiv query is an input: the finite list of results the generator
    \<^verbatim>\<open>client.results(search)\<close> yields. \<^verbatim>\<open>print\<close> calls are not modelled.
\<close>

subsection \<open>Python strings\<close>

text \<open>
  The upper-case letters of the range: A to Z, and U+00C0 to U+00DE without the
  multiplication sign U+00D7. \<^verbatim>\<open>c.lower()\<close> moves each of them up by 32 and leaves every
  other character of the range as it is.
\<close>

definition is_upper :: "char \<Rightarrow> bool" where
  "is_upper c =
     (let n = (of_char c :: nat) in
      (65 \<le> n \<and> n \<le> 90) \<or> (192 \<le> n \<and> n \<le> 222 \<and> n \<noteq> 215))"

definition lower_char :: "char \<Rightarrow> char" where
  "lower_char c = (if is_upper c then char_of ((of_char c :: nat) + 32) else c)"

text \<open>
  The cased characters of the range (CPython's \<^verbatim>\<open>_PyUnicode_IsCased\<close>): the ASCII
  letters, U+00AA, U+00B5, U+00BA, and U+00C0 to U+00FF without U+00D7 and U+00F7.
\<close>

definition is_cased :: "char \<Rightarrow> bool" where
  "is_cased c =
     (let n = (of_char c :: nat) in
      (65 \<le> n \<and> n \<le> 90) \<or> (97 \<le> n \<and> n \<le> 122) \<or> n = 170 \<or> n = 181 \<or> n = 186 \<or>
      (192 \<le> n \<and> n \<noteq> 215 \<and> n \<noteq> 247))"

text \<open>
  The title-case form of one character: a to z and U+00E0 to U+00FE without the division
  sign U+00F7 move down by 32, the sharp s U+00DF becomes \<^verbatim>\<open>Ss\<close>. The title-case forms
  of U+00B5 and U+00FF are U+039C and U+0178, beyond the range of the type: the model
  leaves these two characters as they are, so the header line of a topic that has one of
  them at the start of a word is not modelled.
\<close>

definition title_char :: "char \<Rightarrow> string" where
  "title_char c =
     (let n = (of_char c :: nat) in
      if (97 \<le> n \<and> n \<le> 122) \<or> (224 \<le> n \<and> n \<le> 254 \<and> n \<noteq> 247) then [char_of (n - 32)]
      else if n = 223 then ''Ss''
      else [c])"

text \<open>\<^verbatim>\<open>s.lower()\<close>.\<close>

definition lower :: "string \<Rightarrow> string" where
  "lower s = map lower_char s"

text \<open>\<^verbatim>\<open>s.replace(a, b)\<close> for one-character \<^verbatim>\<open>a\<close> and \<^verbatim>\<open>b\<close>.\<close>

definition replace :: "char \<Rightarrow> char \<Rightarrow> string \<Rightarrow> string" where
  "replace a b s = map (\<lambda>c. if c = a then b else c) s"

text \<open>
  \<^verbatim>\<open>s.title()\<close>: a character that follows a cased character is lower-cased, any other
  character is title-cased. The flag is CPython's \<^verbatim>\<open>previous_is_cased\<close>.
\<close>

fun title_from :: "bool \<Rightarrow> string \<Rightarrow> string" where
  "title_from prev [] = []"
| "title_from prev (c # cs) =
     (if prev then [lower_char c] else title_char c) @ title_from (is_cased c) cs"

definition title_case :: "string \<Rightarrow> string" where
  "title_case s = title_from False s"

text \<open>\<^verbatim>\<open>sep.join(xs)\<close>.\<close>

fun join :: "string \<Rightarrow> string list \<Rightarrow> string" where
  "join sep [] = []"
| "join sep [x] = x"
| "join sep (x # y # ys) = x @ sep @ join sep (y # ys)"

text \<open>\<^verbatim>\<open>str(n)\<close> of a non-negative integer, as the f-string prints \<^verbatim>\<open>len(papers_data)\<close>.\<close>

definition digit_char :: "nat \<Rightarrow> char" where
  "digit_char n = char_of (48 + n)"

fun str_of_nat :: "nat \<Rightarrow> string" where
  "str_of_nat n = (if n < 10 then [digit_char n] else str_of_nat (n div 10) @ [digit_char (n mod 10)])"

declare str_of_nat.simps [simp del]

subsection \<open>Records, dictionaries and JSON\<close>

text \<open>
  The dictionary \<^verbatim>\<open>paper_info\<close> built at lines 58-64, and stored as one member of the
  namespace's JSON object.
\<close>

record paper_info =
  title :: string
  authors :: "string list"
  summary :: string
  pdf_url :: string
  published :: string

text \<open>
  One result the arXiv client yields, projected to what \<^verbatim>\<open>search_papers\<close> reads of it:
  \<^verbatim>\<open>paper.get_short_id()\<close>, \<^verbatim>\<open>paper.title\<close>, the names
  \<^verbatim>\<open>[author.name for author in paper.authors]\<close>, \<^verbatim>\<open>paper.summary\<close>,
  \<^verbatim>\<open>paper.pdf_url\<close> and the text \<^verbatim>\<open>str(paper.published.date())\<close>.
\<close>

record paper =
  get_short_id :: string
  paper_title :: string
  paper_author_names :: "string list"
  paper_summary :: string
  paper_pdf_url :: string
  paper_published_date :: string

text \<open>
  A Python \<^verbatim>\<open>dict\<close> keeps its keys in insertion order, so it is an association
  list. \<^verbatim>\<open>d[k] = v\<close> replaces the value of an existing key where the key stands and
  appends a new key at the end.
\<close>

type_synonym ('k, 'v) dict = "('k \<times> 'v) list"

primrec setitem :: "('k, 'v) dict \<Rightarrow> 'k \<Rightarrow> 'v \<Rightarrow> ('k, 'v) dict" where
  "setitem [] k v = [(k, v)]"
| "setitem (p # ps) k v = (if fst p = k then (k, v) # ps else p # setitem ps k v)"

text \<open>
  \<^verbatim>\<open>k in d\<close> followed by \<^verbatim>\<open>d[k]\<close> is \<^const>\<open>map_of\<close>: \<^const>\<open>None\<close> when the key is
  not in the dictionary, the value otherwise.
\<close>

datatype error =
    FileNotFoundError
  | FileExistsError
  | IsADirectoryError
  | UnicodeDecodeError
  | JSONDecodeError

text \<open>
  The bytes of a regular file, as far as \<^verbatim>\<open>json.load\<close> tells them apart: bytes that
  are not text in the encoding of \<^verbatim>\<open>open(file_path, "r")\<close>, text that is not JSON, and
  the JSON text of an object with its members in the order of the text.
\<close>

datatype content =
    JsonObject "(string \<times> paper_info) list"
  | NotJson
  | Undecodable

text \<open>
  \<^verbatim>\<open>json.load(f)\<close> reads the whole text, which raises \<^verbatim>\<open>UnicodeDecodeError\<close> on
  bytes that are not text, and parses it, which raises \<^verbatim>\<open>JSONDecodeError\<close> on text that
  is not JSON. It builds the dictionary from the members of the object in their order in
  the text; a repeated key keeps its first place and its last value.
\<close>

definition dict_of_members :: "('k \<times> 'v) list \<Rightarrow> ('k, 'v) dict" where
  "dict_of_members ms = foldl (\<lambda>d (k, v). setitem d k v) [] ms"

definition json_load :: "content \<Rightarrow> error + (string, paper_info) dict" where
  "json_load c = (case c of
      JsonObject ms \<Rightarrow> Inr (dict_of_members ms)
    | NotJson \<Rightarrow> Inl JSONDecodeError
    | Undecodable \<Rightarrow> Inl UnicodeDecodeError)"

text \<open>\<^verbatim>\<open>json.dump(d, f, indent=2)\<close> writes the object whose members are the items of \<^verbatim>\<open>d\<close>.\<close>

definition json_dump :: "(string, paper_info) dict \<Rightarrow> content" where
  "json_dump d = JsonObject d"

text \<open>
  \<^verbatim>\<open>json.dumps(record, indent=2)\<close> as text. Strings are escaped as the encoder does
  with \<^verbatim>\<open>ensure_ascii\<close>: the quote and the backslash, the five short escapes, and
  \<^verbatim>\<open>\u00XX\<close> for every other character outside the range from space to tilde.
\<close>

definition hex_digit :: "nat \<Rightarrow> char" where
  "hex_digit n = (if n < 10 then char_of (48 + n) else char_of (87 + n))"

definition escape_char :: "char \<Rightarrow> string" where
  "escape_char c =
     (let n = (of_char c :: nat) in
      if n = 34 then [CHR 0x5C, CHR 0x22]
      else if n = 92 then [CHR 0x5C, CHR 0x5C]
      else if n = 10 then [CHR 0x5C, CHR ''n'']
      else if n = 13 then [CHR 0x5C, CHR ''r'']
      else if n = 9 then [CHR 0x5C, CHR ''t'']
      else if n = 8 then [CHR 0x5C, CHR ''b'']
      else if n = 12 then [CHR 0x5C, CHR ''f'']
      else if 32 \<le> n \<and> n \<le> 126 then [c]
      else [CHR 0x5C, CHR ''u'', CHR ''0'', CHR ''0'', hex_digit (n div 16), hex_digit (n mod 16)])"

definition json_string :: "string \<Rightarrow> string" where
  "json_string s = [CHR 0x22] @ concat (map escape_char s) @ [CHR 0x22]"

definition json_key :: "string \<Rightarrow> string" where
  "json_key k = ''  '' @ json_string k @ '': ''"

definition json_dumps :: "paper_info \<Rightarrow> string" where
  "json_dumps info =
     ''{\<newline>'' @
     json_key ''title'' @ json_string (title info) @ '',\<newline>'' @
     json_key ''authors'' @
       (if authors info = [] then ''[]''
        else ''[\<newline>    '' @ join '',\<newline>    '' (map json_string (authors info)) @ ''\<newline>  ]'') @
       '',\<newline>'' @
     json_key ''summary'' @ json_string (summary info) @ '',\<newline>'' @
     json_key ''pdf_url'' @ json_string (pdf_url info) @ '',\<newline>'' @
     json_key ''published'' @ json_string (published info) @ ''\<newline>}''"

subsection \<open>The papers root\<close>

text \<open>What stands under \<^verbatim>\<open>papers/<name>/papers_info.json\<close>, when something does.\<close>

datatype info_entry = RegularFile content | Directory

text \<open>What stands under \<^verbatim>\<open>papers/<name>\<close>.\<close>

datatype node = File | Dir "info_entry option"

text \<open>\<^const>\<open>None\<close>: the directory \<^verbatim>\<open>papers\<close> does not exist.\<close>

type_synonym papers_root = "(string \<times> node) list option"

definition lookup_node :: "papers_root \<Rightarrow> string \<Rightarrow> node option" where
  "lookup_node fs name = (case fs of None \<Rightarrow> None | Some es \<Rightarrow> map_of es name)"

definition info_entry_of :: "papers_root \<Rightarrow> string \<Rightarrow> info_entry option" where
  "info_entry_of fs name = (case lookup_node fs name of Some (Dir e) \<Rightarrow> e | _ \<Rightarrow> None)"

text \<open>\<^verbatim>\<open>os.path.exists(PAPER_DIR)\<close> and \<^verbatim>\<open>os.listdir(PAPER_DIR)\<close>.\<close>

definition root_exists :: "papers_root \<Rightarrow> bool" where
  "root_exists fs = (fs \<noteq> None)"

definition listdir :: "papers_root \<Rightarrow> error + string list" where
  "listdir fs = (case fs of None \<Rightarrow> Inl FileNotFoundError | Some es \<Rightarrow> Inr (map fst es))"

text \<open>\<^verbatim>\<open>os.path.isdir(os.path.join(PAPER_DIR, name))\<close>.\<close>

definition isdir :: "papers_root \<Rightarrow> string \<Rightarrow> bool" where
  "isdir fs name = (case lookup_node fs name of Some (Dir e) \<Rightarrow> True | _ \<Rightarrow> False)"

text \<open>
  \<^verbatim>\<open>os.path.exists\<close> and \<^verbatim>\<open>os.path.isfile\<close> of
  \<^verbatim>\<open>os.path.join(PAPER_DIR, name, "papers_info.json")\<close>.
\<close>

definition info_exists :: "papers_root \<Rightarrow> string \<Rightarrow> bool" where
  "info_exists fs name = (info_entry_of fs name \<noteq> None)"

definition info_isfile :: "papers_root \<Rightarrow> string \<Rightarrow> bool" where
  "info_isfile fs name = (case info_entry_of fs name of Some (RegularFile c) \<Rightarrow> True | _ \<Rightarrow> False)"

text \<open>\<^verbatim>\<open>open(file_path, "r")\<close> and reading the text.\<close>

definition open_read :: "papers_root \<Rightarrow> string \<Rightarrow> error + content" where
  "open_read fs name = (case info_entry_of fs name of
      None \<Rightarrow> Inl FileNotFoundError
    | Some Directory \<Rightarrow> Inl IsADirectoryError
    | Some (RegularFile c) \<Rightarrow> Inr c)"

text \<open>
  \<^verbatim>\<open>os.makedirs(path, exist_ok=True)\<close>: creates the root and the directory when
  missing, leaves an existing directory alone, and raises when the path is a regular file.
\<close>

definition makedirs :: "papers_root \<Rightarrow> string \<Rightarrow> error + papers_root" where
  "makedirs fs name = (case fs of
      None \<Rightarrow> Inr (Some [(name, Dir None)])
    | Some es \<Rightarrow> (case map_of es name of
          None \<Rightarrow> Inr (Some (es @ [(name, Dir None)]))
        | Some File \<Rightarrow> Inl FileExistsError
        | Some (Dir e) \<Rightarrow> Inr (Some es)))"

text \<open>
  \<^verbatim>\<open>open(file_path, "w")\<close> followed by writing the whole text: the file is created or
  replaced inside an existing directory.
\<close>

definition write_file :: "papers_root \<Rightarrow> string \<Rightarrow> content \<Rightarrow> error + papers_root" where
  "write_file fs name c = (case fs of
      None \<Rightarrow> Inl FileNotFoundError
    | Some es \<Rightarrow> (case map_of es name of
          Some (Dir (Some Directory)) \<Rightarrow> Inl IsADirectoryError
        | Some (Dir e) \<Rightarrow> Inr (Some (setitem es name (Dir (Some (RegularFile c)))))
        | _ \<Rightarrow> Inl FileNotFoundError))"

text \<open>
  Lines 49-50, 93-94 and 149-150: \<^verbatim>\<open>with open(file_path, "r") as f: json.load(f)\<close>,
  with the error that leaves the block.
\<close>

definition read_papers_info :: "papers_root \<Rightarrow> string \<Rightarrow> error + (string, paper_info) dict" where
  "read_papers_info fs name =
     (case open_read fs name of Inl e \<Rightarrow> Inl e | Inr c \<Rightarrow> json_load c)"

subsection \<open>Topic Store: search_papers\<close>

text \<open>Lines 42 and 142: \<^verbatim>\<open>topic.lower().replace(" ", "_")\<close>.\<close>

definition derive_topic_dir :: "string \<Rightarrow> string" where
  "derive_topic_dir topic = replace CHR '' '' CHR ''_'' (lower topic)"

text \<open>Lines 58-64.\<close>

definition paper_info_of :: "paper \<Rightarrow> paper_info" where
  "paper_info_of p =
     \<lparr> title = paper_title p,
       authors = paper_author_names p,
       summary = paper_summary p,
       pdf_url = paper_pdf_url p,
       published = paper_published_date p \<rparr>"

text \<open>
  Lines 47-52: the mapping the call starts from. \<^verbatim>\<open>FileNotFoundError\<close> and
  \<^verbatim>\<open>JSONDecodeError\<close> are caught and give the empty dictionary; any other error
  leaves the function.
\<close>

definition load_or_empty :: "papers_root \<Rightarrow> string \<Rightarrow> error + (string, paper_info) dict" where
  "load_or_empty fs name =
     (case read_papers_info fs name of
        Inr papers_info \<Rightarrow> Inr papers_info
      | Inl e \<Rightarrow> if e = FileNotFoundError \<or> e = JSONDecodeError then Inr [] else Inl e)"

text \<open>Lines 55-65: the loop over the results, with \<^verbatim>\<open>paper_ids\<close> and \<^verbatim>\<open>papers_info\<close>.\<close>

fun process_papers ::
  "paper list \<Rightarrow> string list \<Rightarrow> (string, paper_info) dict \<Rightarrow> string list \<times> (string, paper_info) dict"
where
  "process_papers [] paper_ids papers_info = (paper_ids, papers_info)"
| "process_papers (p # ps) paper_ids papers_info =
     process_papers ps (paper_ids @ [get_short_id p])
       (setitem papers_info (get_short_id p) (paper_info_of p))"

text \<open>
  \<^verbatim>\<open>search_papers(topic, max_results)\<close>, with the results of the query as the list
  \<open>papers\<close>. The result is the new papers root and the returned list of ids. Every
  error leaves the function before anything is written, then the root is as it was.
\<close>

definition search_papers ::
  "papers_root \<Rightarrow> string \<Rightarrow> paper list \<Rightarrow> error + (papers_root \<times> string list)"
where
  "search_papers fs topic papers =
     (let path = derive_topic_dir topic in
      case makedirs fs path of
        Inl e \<Rightarrow> Inl e
      | Inr fs1 \<Rightarrow>
          (case load_or_empty fs1 path of
             Inl e \<Rightarrow> Inl e
           | Inr papers_info \<Rightarrow>
               (case process_papers papers [] papers_info of
                  (paper_ids, papers_info') \<Rightarrow>
                    (case write_file fs1 path (json_dump papers_info') of
                       Inl e \<Rightarrow> Inl e
                     | Inr fs2 \<Rightarrow> Inr (fs2, paper_ids)))))"

subsection \<open>Metadata Index Query: extract_info\<close>

text \<open>
  Lines 87-99: the loop over the listed names. \<^const>\<open>None\<close> means the loop ran to its
  end; \<^verbatim>\<open>FileNotFoundError\<close> and \<^verbatim>\<open>JSONDecodeError\<close> inside the \<^verbatim>\<open>try\<close>
  continue with the next name.
\<close>

fun extract_loop :: "papers_root \<Rightarrow> string list \<Rightarrow> string \<Rightarrow> error + string option" where
  "extract_loop fs [] paper_id = Inr None"
| "extract_loop fs (item # items) paper_id =
     (if isdir fs item then
        if info_isfile fs item then
          (case read_papers_info fs item of
             Inr papers_info \<Rightarrow>
               (case map_of papers_info paper_id of
                  Some info \<Rightarrow> Inr (Some (json_dumps info))
                | None \<Rightarrow> extract_loop fs items paper_id)
           | Inl e \<Rightarrow>
               if e = FileNotFoundError \<or> e = JSONDecodeError
               then extract_loop fs items paper_id else Inl e)
        else extract_loop fs items paper_id
      else extract_loop fs items paper_id)"

definition not_found_message :: "string \<Rightarrow> string" where
  "not_found_message paper_id =
     ''There's no saved information related to paper '' @ paper_id @ ''.''"

definition extract_info :: "papers_root \<Rightarrow> string \<Rightarrow> error + string" where
  "extract_info fs paper_id =
     (case listdir fs of
        Inl e \<Rightarrow> Inl e
      | Inr items \<Rightarrow>
          (case extract_loop fs items paper_id of
             Inl e \<Rightarrow> Inl e
           | Inr (Some found) \<Rightarrow> Inr found
           | Inr None \<Rightarrow> Inr (not_found_message paper_id)))"

subsection \<open>Topic Listing Renderer: get_available_folders\<close>

text \<open>Lines 116-121: the loop that collects \<^verbatim>\<open>folders\<close>.\<close>

fun collect_folders :: "papers_root \<Rightarrow> string list \<Rightarrow> string list \<Rightarrow> string list" where
  "collect_folders fs [] folders = folders"
| "collect_folders fs (topic_dir # rest) folders =
     collect_folders fs rest
       (if isdir fs topic_dir then
          if info_exists fs topic_dir then folders @ [topic_dir] else folders
        else folders)"

text \<open>
  Lines 112-132. The read operations take the papers root and return text only: the
  source calls nothing that writes. After the loop of line 126 the variable
  \<^verbatim>\<open>folder\<close> is the last listed name.
\<close>

definition get_available_folders :: "papers_root \<Rightarrow> error + string" where
  "get_available_folders fs =
     (case (if root_exists fs
            then (case listdir fs of Inl e \<Rightarrow> Inl e | Inr names \<Rightarrow> Inr (collect_folders fs names []))
            else Inr []) of
        Inl e \<Rightarrow> Inl e
      | Inr folders \<Rightarrow>
          Inr (''# Available Topics\<newline>\<newline>'' @
               (if folders \<noteq> [] then
                  foldl (\<lambda>content folder. content @ ''- '' @ folder @ ''\<newline>'') [] folders @
                  ''\<newline>Use @'' @ last folders @ '' to access papers in that topic.\<newline>''
                else ''No topics found.\<newline>'')))"

subsection \<open>Topic Detail Renderer: get_topic_papers\<close>

text \<open>Lines 157-163: what one item of the mapping adds to \<^verbatim>\<open>content\<close>.\<close>

definition render_paper :: "string \<Rightarrow> paper_info \<Rightarrow> string" where
  "render_paper paper_id info =
     ''## '' @ title info @ ''\<newline>'' @
     ''- **Paper ID**: '' @ paper_id @ ''\<newline>'' @
     ''- **Authors**: '' @ join '', '' (authors info) @ ''\<newline>'' @
     ''- **Published**: '' @ published info @ ''\<newline>'' @
     ''- **PDF URL**: ['' @ pdf_url info @ '']('' @ pdf_url info @ '')\<newline>\<newline>'' @
     ''### Summary\<newline>'' @ take 500 (summary info) @ ''...\<newline>\<newline>'' @
     ''---\<newline>\<newline>''"

text \<open>Lines 153-154.\<close>

definition render_header :: "string \<Rightarrow> nat \<Rightarrow> string" where
  "render_header topic n =
     ''# Papers on '' @ title_case (replace CHR ''_'' CHR '' '' topic) @ ''\<newline>\<newline>'' @
     ''Total papers: '' @ str_of_nat n @ ''\<newline>\<newline>''"

definition no_papers_message :: "string \<Rightarrow> string" where
  "no_papers_message topic =
     ''# No papers found for topic: '' @ topic @
     ''\<newline>\<newline>Try searching for papers on this topic first.''"

definition corrupted_message :: "string \<Rightarrow> string" where
  "corrupted_message topic =
     ''# Error reading papers data for '' @ topic @
     ''\<newline>\<newline>The papers data file is corrupted.''"

text \<open>Lines 142-167. Only \<^verbatim>\<open>json.JSONDecodeError\<close> is caught.\<close>

definition get_topic_papers :: "papers_root \<Rightarrow> string \<Rightarrow> error + string" where
  "get_topic_papers fs topic =
     (let topic_dir = derive_topic_dir topic in
      if \<not> info_exists fs topic_dir then Inr (no_papers_message topic)
      else
        (case read_papers_info fs topic_dir of
           Inr papers_data \<Rightarrow>
             Inr (foldl (\<lambda>content (paper_id, info). content @ render_paper paper_id info)
                    (render_header topic (length papers_data)) papers_data)
         | Inl e \<Rightarrow> if e = JSONDecodeError then Inr (corrupted_message topic) else Inl e))"

subsection \<open>Vocabulary of the properties\<close>



subsection \<open>Example data\<close>

definition example_paper :: paper where
  "example_paper =
     \<lparr> get_short_id = ''2101.00001v1'',
       paper_title = ''Qubits'',
       paper_author_names = [''A. Author'', ''B. Writer''],
       paper_summary = ''Short summary.'',
       paper_pdf_url = ''http://arxiv.org/pdf/2101.00001v1'',
       paper_published_date = ''2021-01-01'' \<rparr>"

definition example_other_paper :: paper where
  "example_other_paper =
     \<lparr> get_short_id = ''2102.00002v2'',
       paper_title = ''Gates'',
       paper_author_names = [''C. Third''],
       paper_summary = ''Another summary.'',
       paper_pdf_url = ''http://arxiv.org/pdf/2102.00002v2'',
       paper_published_date = ''2021-02-02'' \<rparr>"

definition example_long_paper :: paper where
  "example_long_paper =
     \<lparr> get_short_id = ''2103.00003v1'',
       paper_title = ''Long'',
       paper_author_names = [''D. Fourth''],
       paper_summary = replicate 501 CHR ''x'',
       paper_pdf_url = ''http://arxiv.org/pdf/2103.00003v1'',
       paper_published_date = ''2021-03-03'' \<rparr>"

text \<open>
  A root with one topic that holds one record, one whose file is not JSON, and one whose
  file is not text.
\<close>

definition example_root :: "paper \<Rightarrow> papers_root" where
  "example_root p =
     Some [(''ai'', Dir (Some (RegularFile (JsonObject [(get_short_id p, paper_info_of p)]))))]"

definition corrupt_root :: papers_root where
  "corrupt_root = Some [(''ai'', Dir (Some (RegularFile NotJson)))]"

definition undecodable_root :: papers_root where
  "undecodable_root = Some [(''ai'', Dir (Some (RegularFile Undecodable)))]"

section \<open>Properties of the model\<close>

subsection \<open>Dictionaries\<close>

lemma map_of_setitem: "map_of (setitem d k v) = (map_of d)(k \<mapsto> v)"
  by (induction d) (auto simp: fun_eq_iff)

lemma keys_setitem: "fst ` set (setitem d k v) = insert k (fst ` set d)"
  by (induction d) auto

lemma map_fst_setitem:
  "map fst (setitem d k v) = (if k \<in> fst ` set d then map fst d else map fst d @ [k])"
  by (induction d) auto

lemma distinct_setitem: "distinct (map fst d) \<Longrightarrow> distinct (map fst (setitem d k v))"
  by (simp add: map_fst_setitem)

lemma setitem_fresh: "k \<notin> fst ` set d \<Longrightarrow> setitem d k v = d @ [(k, v)]"
  by (induction d) auto

lemma foldl_setitem_distinct:
  "distinct (map fst d) \<Longrightarrow> distinct (map fst (foldl (\<lambda>d (k, v). setitem d k v) d ms))"
  by (induction ms arbitrary: d) (auto simp: distinct_setitem)

lemma distinct_dict_of_members: "distinct (map fst (dict_of_members ms))"
  by (simp add: dict_of_members_def foldl_setitem_distinct)

lemma foldl_setitem_append:
  "distinct (map fst (d @ ms)) \<Longrightarrow> foldl (\<lambda>d (k, v). setitem d k v) d ms = d @ ms"
proof (induction ms arbitrary: d)
  case Nil
  then show ?case by simp
next
  case (Cons m ms)
  obtain k v where m: "m = (k, v)" by (cases m)
  from Cons.prems have fresh: "k \<notin> fst ` set d" by (auto simp: m)
  from Cons.prems have "distinct (map fst ((d @ [(k, v)]) @ ms))" by (auto simp: m)
  from Cons.IH [OF this] show ?case by (simp add: m setitem_fresh [OF fresh])
qed

lemma dict_of_members_distinct: "distinct (map fst d) \<Longrightarrow> dict_of_members d = d"
  using foldl_setitem_append [of "[]" d] by (simp add: dict_of_members_def)

lemma json_load_dump: "distinct (map fst d) \<Longrightarrow> json_load (json_dump d) = Inr d"
  by (simp add: json_load_def json_dump_def dict_of_members_distinct)


subsection \<open>The loop of search_papers\<close>

lemma process_papers_ids: "fst (process_papers ps ids d) = ids @ map get_short_id ps"
  by (induction ps arbitrary: ids d) auto

lemma process_papers_distinct:
  "distinct (map fst d) \<Longrightarrow> distinct (map fst (snd (process_papers ps ids d)))"
  by (induction ps arbitrary: ids d) (auto simp: distinct_setitem)

lemma process_papers_other:
  "k \<notin> get_short_id ` set ps \<Longrightarrow> map_of (snd (process_papers ps ids d)) k = map_of d k"
  by (induction ps arbitrary: ids d) (auto simp: map_of_setitem)

lemma process_papers_keys:
  "fst ` set (snd (process_papers ps ids d)) = fst ` set d \<union> get_short_id ` set ps"
  by (induction ps arbitrary: ids d) (auto simp: keys_setitem)


subsection \<open>Reading and writing the papers root\<close>

lemma read_papers_info_entry:
  "read_papers_info fs name = (case info_entry_of fs name of
      None \<Rightarrow> Inl FileNotFoundError
    | Some Directory \<Rightarrow> Inl IsADirectoryError
    | Some (RegularFile c) \<Rightarrow> json_load c)"
  by (simp add: read_papers_info_def open_read_def split: option.splits info_entry.splits)


lemma read_papers_info_usable:
  assumes "read_papers_info fs name = Inr d"
  shows "lookup_node fs name \<noteq> Some File"
    and "info_entry_of fs name \<noteq> Some Directory"
    and "info_entry_of fs name \<noteq> Some (RegularFile Undecodable)"
  using assms
  by (auto simp: read_papers_info_entry info_entry_of_def json_load_def split: option.splits)

lemma makedirs_usable:
  assumes "lookup_node fs name \<noteq> Some File"
  shows "\<exists>fs1. makedirs fs name = Inr fs1 \<and>
           lookup_node fs1 name = Some (Dir (info_entry_of fs name)) \<and>
           (\<forall>other. other \<noteq> name \<longrightarrow> lookup_node fs1 other = lookup_node fs other)"
proof (cases fs)
  case None
  then show ?thesis
    by (simp add: makedirs_def lookup_node_def info_entry_of_def)
next
  case (Some es)
  show ?thesis
  proof (cases "map_of es name")
    case None
    with Some show ?thesis
      by (auto simp: makedirs_def lookup_node_def info_entry_of_def map_add_def split: option.splits)
  next
    case (Some n)
    with assms \<open>fs = Some es\<close> obtain e where "n = Dir e"
      by (cases n) (auto simp: lookup_node_def)
    with Some \<open>fs = Some es\<close> show ?thesis
      by (simp add: makedirs_def lookup_node_def info_entry_of_def)
  qed
qed

lemma write_file_dir:
  assumes "lookup_node fs name = Some (Dir e)" and "e \<noteq> Some Directory"
  shows "\<exists>fs2. write_file fs name c = Inr fs2 \<and>
           lookup_node fs2 name = Some (Dir (Some (RegularFile c))) \<and>
           (\<forall>other. other \<noteq> name \<longrightarrow> lookup_node fs2 other = lookup_node fs other)"
proof -
  from assms(1) obtain es where es: "fs = Some es" "map_of es name = Some (Dir e)"
    by (cases fs) (auto simp: lookup_node_def)
  have "write_file fs name c = Inr (Some (setitem es name (Dir (Some (RegularFile c)))))"
    using es assms(2)
    by (cases e) (auto simp: write_file_def split: info_entry.splits)
  then show ?thesis
    using es by (simp add: lookup_node_def map_of_setitem)
qed

subsection \<open>The whole of search_papers\<close>

text \<open>
  The call raises exactly when the topic's path is a regular file (\<^verbatim>\<open>os.makedirs\<close>),
  its \<^verbatim>\<open>papers_info.json\<close> is a directory (\<^verbatim>\<open>open\<close>), or the bytes of the file are
  not text (\<^verbatim>\<open>json.load\<close>, whose \<^verbatim>\<open>UnicodeDecodeError\<close> line 51 does not catch). In
  every other state of the root it returns the ids of the results and leaves, in the
  topic's file, the mapping the loop built from the one it read.
\<close>

lemma search_papers_usable:
  assumes node: "lookup_node fs (derive_topic_dir topic) \<noteq> Some File"
      and entry: "info_entry_of fs (derive_topic_dir topic) \<noteq> Some Directory"
      and decodable: "info_entry_of fs (derive_topic_dir topic) \<noteq> Some (RegularFile Undecodable)"
  shows "\<exists>fs'. search_papers fs topic papers = Inr (fs', map get_short_id papers) \<and>
           read_papers_info fs' (derive_topic_dir topic) =
             Inr (snd (process_papers papers []
                    (case read_papers_info fs (derive_topic_dir topic) of
                       Inr d \<Rightarrow> d | Inl e \<Rightarrow> []))) \<and>
           (\<forall>other. other \<noteq> derive_topic_dir topic \<longrightarrow> lookup_node fs' other = lookup_node fs other)"
proof -
  let ?name = "derive_topic_dir topic"
  let ?d0 = "case read_papers_info fs ?name of Inr d \<Rightarrow> d | Inl e \<Rightarrow> []"
  obtain ids d1 where pp: "process_papers papers [] ?d0 = (ids, d1)"
    by (cases "process_papers papers [] ?d0")
  from process_papers_ids [of papers "[]" ?d0] pp
  have ids: "ids = map get_short_id papers" by simp
  from pp have d1: "d1 = snd (process_papers papers [] ?d0)" by simp
  from makedirs_usable [OF node] obtain fs1 where
    mk: "makedirs fs ?name = Inr fs1"
    and n1: "lookup_node fs1 ?name = Some (Dir (info_entry_of fs ?name))"
    and o1: "\<forall>other. other \<noteq> ?name \<longrightarrow> lookup_node fs1 other = lookup_node fs other"
    by blast
  from n1 have e1: "info_entry_of fs1 ?name = info_entry_of fs ?name"
    by (simp add: info_entry_of_def)
  have d0_distinct: "distinct (map fst ?d0)"
    by (auto simp: read_papers_info_entry json_load_def distinct_dict_of_members
        split: option.splits info_entry.splits content.splits)
  have load: "load_or_empty fs1 ?name = Inr ?d0"
    using entry decodable
    by (auto simp: load_or_empty_def read_papers_info_entry e1 json_load_def
        split: option.splits info_entry.splits content.splits)
  from write_file_dir [OF n1 entry] obtain fs2 where
    wr: "write_file fs1 ?name (json_dump d1) = Inr fs2"
    and n2: "lookup_node fs2 ?name = Some (Dir (Some (RegularFile (json_dump d1))))"
    and o2: "\<forall>other. other \<noteq> ?name \<longrightarrow> lookup_node fs2 other = lookup_node fs1 other"
    by blast
  have sp: "search_papers fs topic papers = Inr (fs2, map get_short_id papers)"
    unfolding search_papers_def Let_def by (simp add: mk load pp wr ids)
  have "distinct (map fst d1)"
    unfolding d1 by (rule process_papers_distinct [OF d0_distinct])
  then have "json_load (json_dump d1) = Inr d1"
    by (rule json_load_dump)
  with n2 have rd: "read_papers_info fs2 ?name = Inr d1"
    by (simp add: read_papers_info_entry info_entry_of_def)
  from sp rd o1 o2 show ?thesis unfolding d1 by simp
qed

lemma search_papers_raises:
  "lookup_node fs (derive_topic_dir topic) = Some File \<Longrightarrow>
     search_papers fs topic papers = Inl FileExistsError"
  "info_entry_of fs (derive_topic_dir topic) = Some Directory \<Longrightarrow>
     search_papers fs topic papers = Inl IsADirectoryError"
  "info_entry_of fs (derive_topic_dir topic) = Some (RegularFile Undecodable) \<Longrightarrow>
     search_papers fs topic papers = Inl UnicodeDecodeError"
  by (cases fs; auto simp: search_papers_def Let_def makedirs_def lookup_node_def info_entry_of_def
        load_or_empty_def read_papers_info_def open_read_def json_load_def
        split: option.splits node.splits info_entry.splits)+


subsection \<open>Rendering\<close>

lemma foldl_append_concat:
  "foldl (\<lambda>content x. content @ f x) acc xs = acc @ concat (map f xs)"
  by (induction xs arbitrary: acc) auto

lemma foldl_render:
  "foldl (\<lambda>content (paper_id, info). content @ render_paper paper_id info) acc d =
     acc @ concat (map (\<lambda>(paper_id, info). render_paper paper_id info) d)"
  by (induction d arbitrary: acc) (auto)

lemma get_topic_papers_render:
  assumes "read_papers_info fs (derive_topic_dir topic) = Inr d"
  shows "get_topic_papers fs topic =
           Inr (render_header topic (length d) @
                concat (map (\<lambda>(paper_id, info). render_paper paper_id info) d))"
proof -
  from assms have "info_exists fs (derive_topic_dir topic)"
    by (auto simp: read_papers_info_entry info_exists_def split: option.splits)
  with assms show ?thesis
    by (simp add: get_topic_papers_def Let_def foldl_render)
qed

lemma get_topic_papers_record:
  assumes "read_papers_info fs (derive_topic_dir topic) = Inr (before @ (paper_id, info) # after)"
  shows "get_topic_papers fs topic =
           Inr (render_header topic (Suc (length before + length after)) @
                concat (map (\<lambda>(k, v). render_paper k v) before) @
                render_paper paper_id info @
                concat (map (\<lambda>(k, v). render_paper k v) after))"
  using get_topic_papers_render [OF assms] by simp

lemma collect_folders_filter:
  "collect_folders fs names folders =
     folders @ filter (\<lambda>name. isdir fs name \<and> info_exists fs name) names"
  by (induction names arbitrary: folders) auto

subsection \<open>Letter case\<close>








subsection \<open>The scan of extract_info\<close>

lemma extract_loop_miss:
  assumes "\<forall>item \<in> set items. \<forall>d. read_papers_info fs item = Inr d \<longrightarrow> map_of d paper_id = None"
      and "\<forall>item \<in> set items. read_papers_info fs item \<noteq> Inl UnicodeDecodeError"
  shows "extract_loop fs items paper_id = Inr None"
  using assms
proof (induction items)
  case Nil
  then show ?case by simp
next
  case (Cons item items)
  then have rest: "extract_loop fs items paper_id = Inr None" by simp
  show ?case
  proof (cases "isdir fs item \<and> info_isfile fs item")
    case False
    with rest show ?thesis by auto
  next
    case True
    then obtain c where c: "info_entry_of fs item = Some (RegularFile c)"
      by (auto simp: info_isfile_def split: option.splits info_entry.splits)
    show ?thesis
    proof (cases c)
      case NotJson
      with c True rest show ?thesis
        by (simp add: read_papers_info_entry json_load_def)
    next
      case Undecodable
      with c have "read_papers_info fs item = Inl UnicodeDecodeError"
        by (simp add: read_papers_info_entry json_load_def)
      with Cons.prems show ?thesis by simp
    next
      case (JsonObject ms)
      with c have rd: "read_papers_info fs item = Inr (dict_of_members ms)"
        by (simp add: read_papers_info_entry json_load_def)
      with Cons.prems have "map_of (dict_of_members ms) paper_id = None" by simp
      with rd True rest show ?thesis by simp
    qed
  qed
qed

lemma extract_info_miss:
  assumes "\<forall>item \<in> set (map fst es). \<forall>d. read_papers_info (Some es) item = Inr d \<longrightarrow> map_of d paper_id = None"
      and "\<forall>item \<in> set (map fst es). read_papers_info (Some es) item \<noteq> Inl UnicodeDecodeError"
  shows "extract_info (Some es) paper_id =
           Inr (''There's no saved information related to paper '' @ paper_id @ ''.'')"
  using extract_loop_miss [OF assms]
  by (simp add: extract_info_def listdir_def not_found_message_def)

lemma extract_info_undecodable:
  "extract_info undecodable_root paper_id = Inl UnicodeDecodeError"
  by (simp add: extract_info_def listdir_def undecodable_root_def isdir_def info_isfile_def
      info_entry_of_def lookup_node_def read_papers_info_def open_read_def json_load_def)

section \<open>The claims\<close>



text \<open>
  Claim C2. When the topic's file is present and well formed, \<^verbatim>\<open>search_papers\<close> keeps
  every stored record whose id is not among the results, and the keys afterwards are the
  keys before together with the ids of the results: nothing is removed. Storing a result
  \<open>a\<close> and then a result \<open>b\<close> of another id under the same topic leaves both records.
\<close>

theorem search_papers_keeps_other_records:
  "(read_papers_info fs (derive_topic_dir topic) = Inr d \<longrightarrow>
      (\<exists>fs' d'.
         search_papers fs topic papers = Inr (fs', map get_short_id papers) \<and>
         read_papers_info fs' (derive_topic_dir topic) = Inr d' \<and>
         (\<forall>k. k \<notin> get_short_id ` set papers \<longrightarrow> map_of d' k = map_of d k) \<and>
         fst ` set d' = fst ` set d \<union> get_short_id ` set papers)) \<and>
   (lookup_node fs (derive_topic_dir topic) \<noteq> Some File \<and>
    info_entry_of fs (derive_topic_dir topic) \<noteq> Some Directory \<and>
    info_entry_of fs (derive_topic_dir topic) \<noteq> Some (RegularFile Undecodable) \<and>
    get_short_id a \<noteq> get_short_id b \<longrightarrow>
      (\<exists>fs1 fs2 d2.
         search_papers fs topic [a] = Inr (fs1, [get_short_id a]) \<and>
         search_papers fs1 topic [b] = Inr (fs2, [get_short_id b]) \<and>
         read_papers_info fs2 (derive_topic_dir topic) = Inr d2 \<and>
         map_of d2 (get_short_id a) = Some (paper_info_of a) \<and>
         map_of d2 (get_short_id b) = Some (paper_info_of b)))"
proof (intro conjI impI)
  let ?name = "derive_topic_dir topic"
  assume rd: "read_papers_info fs ?name = Inr d"
  from search_papers_usable [OF read_papers_info_usable [OF rd], of papers] obtain fs' where
    "search_papers fs topic papers = Inr (fs', map get_short_id papers)"
    "read_papers_info fs' ?name = Inr (snd (process_papers papers [] d))"
    by (auto simp: rd)
  then show "\<exists>fs' d'.
         search_papers fs topic papers = Inr (fs', map get_short_id papers) \<and>
         read_papers_info fs' ?name = Inr d' \<and>
         (\<forall>k. k \<notin> get_short_id ` set papers \<longrightarrow> map_of d' k = map_of d k) \<and>
         fst ` set d' = fst ` set d \<union> get_short_id ` set papers"
    by (auto simp: process_papers_other process_papers_keys)
next
  let ?name = "derive_topic_dir topic"
  assume "lookup_node fs ?name \<noteq> Some File \<and> info_entry_of fs ?name \<noteq> Some Directory \<and>
    info_entry_of fs ?name \<noteq> Some (RegularFile Undecodable) \<and>
    get_short_id a \<noteq> get_short_id b"
  then have node: "lookup_node fs ?name \<noteq> Some File"
    and entry: "info_entry_of fs ?name \<noteq> Some Directory"
    and decodable: "info_entry_of fs ?name \<noteq> Some (RegularFile Undecodable)"
    and ne: "get_short_id a \<noteq> get_short_id b"
    by simp_all
  from search_papers_usable [OF node entry decodable, of "[a]"] obtain fs1 d1 where
    s1: "search_papers fs topic [a] = Inr (fs1, [get_short_id a])"
    and r1: "read_papers_info fs1 ?name = Inr d1"
    and m1: "map_of d1 (get_short_id a) = Some (paper_info_of a)"
    by (auto simp: map_of_setitem)
  from search_papers_usable [OF read_papers_info_usable [OF r1], of "[b]"] obtain fs2 where
    s2: "search_papers fs1 topic [b] = Inr (fs2, [get_short_id b])"
    and r2: "read_papers_info fs2 ?name = Inr (setitem d1 (get_short_id b) (paper_info_of b))"
    by (auto simp: r1)
  from m1 ne have "map_of (setitem d1 (get_short_id b) (paper_info_of b)) (get_short_id a)
      = Some (paper_info_of a)"
    by (simp add: map_of_setitem)
  moreover have "map_of (setitem d1 (get_short_id b) (paper_info_of b)) (get_short_id b)
      = Some (paper_info_of b)"
    by (simp add: map_of_setitem)
  ultimately show "\<exists>fs1 fs2 d2.
         search_papers fs topic [a] = Inr (fs1, [get_short_id a]) \<and>
         search_papers fs1 topic [b] = Inr (fs2, [get_short_id b]) \<and>
         read_papers_info fs2 ?name = Inr d2 \<and>
         map_of d2 (get_short_id a) = Some (paper_info_of a) \<and>
         map_of d2 (get_short_id b) = Some (paper_info_of b)"
    using s1 s2 r2 by blast
qed

theorem search_papers_keeps_other_records_witness:
  "read_papers_info (example_root example_paper) (derive_topic_dir ''AI'') =
     Inr [(''2101.00001v1'', paper_info_of example_paper)] \<and>
   (\<exists>fs' d'.
      search_papers (example_root example_paper) ''AI'' [example_other_paper] =
        Inr (fs', map get_short_id [example_other_paper]) \<and>
      read_papers_info fs' (derive_topic_dir ''AI'') = Inr d' \<and>
      map_of d' ''2101.00001v1'' = Some (paper_info_of example_paper) \<and>
      fst ` set d' = {''2101.00001v1'', ''2102.00002v2''}) \<and>
   lookup_node None (derive_topic_dir ''AI'') \<noteq> Some File \<and>
   info_entry_of None (derive_topic_dir ''AI'') \<noteq> Some Directory \<and>
   info_entry_of None (derive_topic_dir ''AI'') \<noteq> Some (RegularFile Undecodable) \<and>
   get_short_id example_paper \<noteq> get_short_id example_other_paper \<and>
   (\<exists>fs1 fs2 d2.
      search_papers None ''AI'' [example_paper] = Inr (fs1, [get_short_id example_paper]) \<and>
      search_papers fs1 ''AI'' [example_other_paper] = Inr (fs2, [get_short_id example_other_paper]) \<and>
      read_papers_info fs2 (derive_topic_dir ''AI'') = Inr d2 \<and>
      map_of d2 (get_short_id example_paper) = Some (paper_info_of example_paper) \<and>
      map_of d2 (get_short_id example_other_paper) = Some (paper_info_of example_other_paper))"
proof -
  have h1: "read_papers_info (example_root example_paper) (derive_topic_dir ''AI'') =
     Inr [(''2101.00001v1'', paper_info_of example_paper)]"
    by code_simp
  have h2: "lookup_node None (derive_topic_dir ''AI'') \<noteq> Some File"
    by code_simp
  have h3: "info_entry_of None (derive_topic_dir ''AI'') \<noteq> Some Directory"
    by code_simp
  have h3': "info_entry_of None (derive_topic_dir ''AI'') \<noteq> Some (RegularFile Undecodable)"
    by code_simp
  have h4: "get_short_id example_paper \<noteq> get_short_id example_other_paper"
    by code_simp
  have other: "''2101.00001v1'' \<notin> get_short_id ` set [example_other_paper]"
    by (simp add: example_other_paper_def)
  have ids: "get_short_id ` set [example_other_paper] = {''2102.00002v2''}"
    by (simp add: example_other_paper_def)
  note both = search_papers_keeps_other_records
    [of "example_root example_paper" "''AI''" "[(''2101.00001v1'', paper_info_of example_paper)]"
        "[example_other_paper]"]
  from both h1 obtain fs' d' where
    a: "search_papers (example_root example_paper) ''AI'' [example_other_paper] =
        Inr (fs', map get_short_id [example_other_paper])"
    and b: "read_papers_info fs' (derive_topic_dir ''AI'') = Inr d'"
    and c: "\<forall>k. k \<notin> get_short_id ` set [example_other_paper] \<longrightarrow>
              map_of d' k = map_of [(''2101.00001v1'', paper_info_of example_paper)] k"
    and d: "fst ` set d' = fst ` set [(''2101.00001v1'', paper_info_of example_paper)] \<union>
              get_short_id ` set [example_other_paper]"
    by blast
  from c other have "map_of d' ''2101.00001v1'' = Some (paper_info_of example_paper)"
    by simp
  moreover from d ids have "fst ` set d' = {''2101.00001v1'', ''2102.00002v2''}"
    by auto
  ultimately have first: "\<exists>fs' d'.
      search_papers (example_root example_paper) ''AI'' [example_other_paper] =
        Inr (fs', map get_short_id [example_other_paper]) \<and>
      read_papers_info fs' (derive_topic_dir ''AI'') = Inr d' \<and>
      map_of d' ''2101.00001v1'' = Some (paper_info_of example_paper) \<and>
      fst ` set d' = {''2101.00001v1'', ''2102.00002v2''}"
    using a b by blast
  from search_papers_keeps_other_records
    [of None "''AI''" "[]" "[]" example_paper example_other_paper] h2 h3 h3' h4
  have second: "\<exists>fs1 fs2 d2.
      search_papers None ''AI'' [example_paper] = Inr (fs1, [get_short_id example_paper]) \<and>
      search_papers fs1 ''AI'' [example_other_paper] = Inr (fs2, [get_short_id example_other_paper]) \<and>
      read_papers_info fs2 (derive_topic_dir ''AI'') = Inr d2 \<and>
      map_of d2 (get_short_id example_paper) = Some (paper_info_of example_paper) \<and>
      map_of d2 (get_short_id example_other_paper) = Some (paper_info_of example_other_paper)"
    by blast
  from h1 first h2 h3 h3' h4 second show ?thesis by blast
qed

text \<open>
  Claim C3. \<^verbatim>\<open>search_papers\<close> returns the ids of the results in the order of the results, one
  per occurrence: it returns in every state of the root where the topic's path can be
  used (not a regular file, \<^verbatim>\<open>papers_info.json\<close> not a directory, the bytes of an existing
  file text), and whenever it returns, the list is \<open>map get_short_id papers\<close>.
\<close>

theorem search_papers_returns_ids:
  "(lookup_node fs (derive_topic_dir topic) \<noteq> Some File \<and>
    info_entry_of fs (derive_topic_dir topic) \<noteq> Some Directory \<and>
    info_entry_of fs (derive_topic_dir topic) \<noteq> Some (RegularFile Undecodable) \<longrightarrow>
      (\<exists>fs'. search_papers fs topic papers = Inr (fs', map get_short_id papers))) \<and>
   (\<forall>fs' paper_ids. search_papers fs topic papers = Inr (fs', paper_ids) \<longrightarrow>
      paper_ids = map get_short_id papers)"
proof (intro conjI impI allI)
  assume "lookup_node fs (derive_topic_dir topic) \<noteq> Some File \<and>
    info_entry_of fs (derive_topic_dir topic) \<noteq> Some Directory \<and>
    info_entry_of fs (derive_topic_dir topic) \<noteq> Some (RegularFile Undecodable)"
  then show "\<exists>fs'. search_papers fs topic papers = Inr (fs', map get_short_id papers)"
    using search_papers_usable [of fs topic papers] by blast
next
  fix fs' paper_ids
  assume ret: "search_papers fs topic papers = Inr (fs', paper_ids)"
  then have "lookup_node fs (derive_topic_dir topic) \<noteq> Some File"
    and "info_entry_of fs (derive_topic_dir topic) \<noteq> Some Directory"
    and "info_entry_of fs (derive_topic_dir topic) \<noteq> Some (RegularFile Undecodable)"
    using search_papers_raises [of fs topic papers] by auto
  from search_papers_usable [OF this, of papers] ret
  show "paper_ids = map get_short_id papers" by auto
qed

theorem search_papers_returns_ids_witness:
  "lookup_node corrupt_root (derive_topic_dir ''ai'') \<noteq> Some File \<and>
   info_entry_of corrupt_root (derive_topic_dir ''ai'') \<noteq> Some Directory \<and>
   info_entry_of corrupt_root (derive_topic_dir ''ai'') \<noteq> Some (RegularFile Undecodable) \<and>
   (\<exists>fs' paper_ids.
      search_papers corrupt_root ''ai'' [example_paper, example_other_paper, example_paper] =
        Inr (fs', paper_ids) \<and>
      paper_ids = [''2101.00001v1'', ''2102.00002v2'', ''2101.00001v1''])"
proof -
  have h1: "lookup_node corrupt_root (derive_topic_dir ''ai'') \<noteq> Some File"
    by code_simp
  have h2: "info_entry_of corrupt_root (derive_topic_dir ''ai'') \<noteq> Some Directory"
    by code_simp
  have h3: "info_entry_of corrupt_root (derive_topic_dir ''ai'') \<noteq> Some (RegularFile Undecodable)"
    by code_simp
  note inst = search_papers_returns_ids
    [of corrupt_root "''ai''" "[example_paper, example_other_paper, example_paper]"]
  from inst h1 h2 h3 obtain fs' where
    ret: "search_papers corrupt_root ''ai'' [example_paper, example_other_paper, example_paper] =
      Inr (fs', map get_short_id [example_paper, example_other_paper, example_paper])"
    by blast
  have "map get_short_id [example_paper, example_other_paper, example_paper] =
      [''2101.00001v1'', ''2102.00002v2'', ''2101.00001v1'']"
    by (simp add: example_paper_def example_other_paper_def)
  with ret h1 h2 h3 show ?thesis by simp
qed



text \<open>
  Claim C5. For an id stored under no topic \<^verbatim>\<open>extract_info\<close> returns the not-found
  sentence when the papers root exists and every file it reads is text
  (\<open>extract_info_miss\<close> above, which covers topics whose file is missing or not JSON).
  When the papers root does not exist the claim fails: \<^verbatim>\<open>os.listdir(PAPER_DIR)\<close> at line 87 raises \<^verbatim>\<open>FileNotFoundError\<close> outside
  the \<^verbatim>\<open>try\<close>, where \<^verbatim>\<open>get_available_folders\<close> guards the same listing with
  \<^verbatim>\<open>os.path.exists(PAPER_DIR)\<close> and answers with text.
\<close>

theorem extract_info_absent_root:
  "extract_info None paper_id = Inl FileNotFoundError \<and>
   get_available_folders None = Inr ''# Available Topics\<newline>\<newline>No topics found.\<newline>''"
  by (simp add: extract_info_def listdir_def get_available_folders_def root_exists_def)

text \<open>
  Claim C6, as stated, fails: line 166 catches \<^verbatim>\<open>json.JSONDecodeError\<close> only, so a file
  that cannot be parsed because its bytes are not text leaves \<^verbatim>\<open>get_topic_papers\<close> with
  \<^verbatim>\<open>UnicodeDecodeError\<close> instead of the corrupted-data message.
\<close>

theorem get_topic_papers_undecodable_raises:
  "info_exists (Some [(''ai'', Dir (Some (RegularFile Undecodable)))]) (derive_topic_dir ''ai'') \<and>
   get_topic_papers (Some [(''ai'', Dir (Some (RegularFile Undecodable)))]) ''ai'' =
     Inl UnicodeDecodeError"
  by code_simp

text \<open>
  Claim C6, amended. \<^verbatim>\<open>get_topic_papers\<close> returns the no-papers message, with the topic
  as given, when nothing exists under the topic's \<^verbatim>\<open>papers_info.json\<close>, and the
  corrupted-data message when the file exists and its text is rejected by the JSON parser
  (\<^verbatim>\<open>json.JSONDecodeError\<close>); the two messages differ, and both are returned text, not
  errors.
\<close>

theorem get_topic_papers_missing_or_corrupt:
  "(\<not> info_exists fs (derive_topic_dir topic) \<longrightarrow>
      get_topic_papers fs topic =
        Inr (''# No papers found for topic: '' @ topic @
             ''\<newline>\<newline>Try searching for papers on this topic first.'')) \<and>
   (info_entry_of fs (derive_topic_dir topic) = Some (RegularFile NotJson) \<longrightarrow>
      get_topic_papers fs topic =
        Inr (''# Error reading papers data for '' @ topic @
             ''\<newline>\<newline>The papers data file is corrupted.'')) \<and>
   no_papers_message topic \<noteq> corrupted_message topic"
  by (auto simp: get_topic_papers_def Let_def no_papers_message_def corrupted_message_def
      info_exists_def read_papers_info_entry json_load_def)

theorem get_topic_papers_missing_or_corrupt_witness:
  "\<not> info_exists None (derive_topic_dir ''ai'') \<and>
   get_topic_papers None ''ai'' =
     Inr ''# No papers found for topic: ai\<newline>\<newline>Try searching for papers on this topic first.'' \<and>
   info_entry_of corrupt_root (derive_topic_dir ''ai'') = Some (RegularFile NotJson) \<and>
   get_topic_papers corrupt_root ''ai'' =
     Inr ''# Error reading papers data for ai\<newline>\<newline>The papers data file is corrupted.''"
proof -
  have h1: "\<not> info_exists None (derive_topic_dir ''ai'')"
    by code_simp
  have h2: "info_entry_of corrupt_root (derive_topic_dir ''ai'') = Some (RegularFile NotJson)"
    by code_simp
  from get_topic_papers_missing_or_corrupt [of None "''ai''"] h1
  have a: "get_topic_papers None ''ai'' =
     Inr ''# No papers found for topic: ai\<newline>\<newline>Try searching for papers on this topic first.''"
    by simp
  from get_topic_papers_missing_or_corrupt [of corrupt_root "''ai''"] h2
  have b: "get_topic_papers corrupt_root ''ai'' =
     Inr ''# Error reading papers data for ai\<newline>\<newline>The papers data file is corrupted.''"
    by simp
  from h1 a h2 b show ?thesis by blast
qed




text \<open>
  Claim C8. For a stored record whose summary is longer than 500 characters, the text of
  \<^verbatim>\<open>get_topic_papers\<close> has, at the record's place, the first 500 characters of the
  summary followed by \<^verbatim>\<open>...\<close>, and this is not the whole summary. Rendering returns
  text only, so the file it read is untouched; and a result with a long summary stored by
  \<^verbatim>\<open>search_papers\<close> is in the file with its full summary while the rendering of that
  file shows the first 500 characters.
\<close>

theorem get_topic_papers_truncates_long_summary:
  "(read_papers_info fs (derive_topic_dir topic) = Inr (before @ (paper_id, info) # after) \<and>
    500 < length (summary info) \<longrightarrow>
      get_topic_papers fs topic =
        Inr (render_header topic (Suc (length before + length after)) @
             concat (map (\<lambda>(k, v). render_paper k v) before) @
             (''## '' @ title info @ ''\<newline>'' @
              ''- **Paper ID**: '' @ paper_id @ ''\<newline>'' @
              ''- **Authors**: '' @ join '', '' (authors info) @ ''\<newline>'' @
              ''- **Published**: '' @ published info @ ''\<newline>'' @
              ''- **PDF URL**: ['' @ pdf_url info @ '']('' @ pdf_url info @ '')\<newline>\<newline>'' @
              ''### Summary\<newline>'' @ take 500 (summary info) @ ''...\<newline>\<newline>'' @
              ''---\<newline>\<newline>'') @
             concat (map (\<lambda>(k, v). render_paper k v) after)) \<and>
      length (take 500 (summary info)) = 500 \<and>
      take 500 (summary info) \<noteq> summary info) \<and>
   (lookup_node fs (derive_topic_dir topic) \<noteq> Some File \<and>
    info_entry_of fs (derive_topic_dir topic) \<noteq> Some Directory \<and>
    info_entry_of fs (derive_topic_dir topic) \<noteq> Some (RegularFile Undecodable) \<and>
    500 < length (paper_summary p) \<longrightarrow>
      (\<exists>fs' d info pre post.
         search_papers fs topic [p] = Inr (fs', [get_short_id p]) \<and>
         read_papers_info fs' (derive_topic_dir topic) = Inr d \<and>
         map_of d (get_short_id p) = Some info \<and>
         summary info = paper_summary p \<and>
         get_topic_papers fs' topic =
           Inr (pre @ ''### Summary\<newline>'' @ take 500 (paper_summary p) @ ''...\<newline>\<newline>'' @ post)))"
proof (intro conjI impI)
  assume "read_papers_info fs (derive_topic_dir topic) = Inr (before @ (paper_id, info) # after) \<and>
    500 < length (summary info)"
  then have rd: "read_papers_info fs (derive_topic_dir topic) = Inr (before @ (paper_id, info) # after)"
    and long: "500 < length (summary info)" by simp_all
  from get_topic_papers_record [OF rd]
  show "get_topic_papers fs topic =
        Inr (render_header topic (Suc (length before + length after)) @
             concat (map (\<lambda>(k, v). render_paper k v) before) @
             (''## '' @ title info @ ''\<newline>'' @
              ''- **Paper ID**: '' @ paper_id @ ''\<newline>'' @
              ''- **Authors**: '' @ join '', '' (authors info) @ ''\<newline>'' @
              ''- **Published**: '' @ published info @ ''\<newline>'' @
              ''- **PDF URL**: ['' @ pdf_url info @ '']('' @ pdf_url info @ '')\<newline>\<newline>'' @
              ''### Summary\<newline>'' @ take 500 (summary info) @ ''...\<newline>\<newline>'' @
              ''---\<newline>\<newline>'') @
             concat (map (\<lambda>(k, v). render_paper k v) after))"
    by (simp add: render_paper_def)
  from long show "length (take 500 (summary info)) = 500" by simp
  from long show "take 500 (summary info) \<noteq> summary info"
    by (metis length_take min.strict_order_iff min.commute less_irrefl)
next
  let ?name = "derive_topic_dir topic"
  assume "lookup_node fs ?name \<noteq> Some File \<and> info_entry_of fs ?name \<noteq> Some Directory \<and>
    info_entry_of fs ?name \<noteq> Some (RegularFile Undecodable) \<and>
    500 < length (paper_summary p)"
  then have node: "lookup_node fs ?name \<noteq> Some File"
    and entry: "info_entry_of fs ?name \<noteq> Some Directory"
    and decodable: "info_entry_of fs ?name \<noteq> Some (RegularFile Undecodable)" by simp_all
  from search_papers_usable [OF node entry decodable, of "[p]"] obtain fs' d where
    sp: "search_papers fs topic [p] = Inr (fs', [get_short_id p])"
    and rd: "read_papers_info fs' ?name = Inr d"
    and m: "map_of d (get_short_id p) = Some (paper_info_of p)"
    by (auto simp: map_of_setitem)
  from m have "(get_short_id p, paper_info_of p) \<in> set d" by (rule map_of_SomeD)
  then obtain before after where d: "d = before @ (get_short_id p, paper_info_of p) # after"
    by (auto simp: in_set_conv_decomp)
  have s: "summary (paper_info_of p) = paper_summary p" by (simp add: paper_info_of_def)
  from get_topic_papers_record [OF rd [unfolded d]]
  have "\<exists>pre post. get_topic_papers fs' topic =
      Inr (pre @ ''### Summary\<newline>'' @ take 500 (paper_summary p) @ ''...\<newline>\<newline>'' @ post)"
    apply (simp only: render_paper_def s)
    apply (rule exI [where x = "render_header topic (Suc (length before + length after)) @
             concat (map (\<lambda>(k, v). render_paper k v) before) @
             ''## '' @ title (paper_info_of p) @ ''\<newline>'' @
              ''- **Paper ID**: '' @ get_short_id p @ ''\<newline>'' @
              ''- **Authors**: '' @ join '', '' (authors (paper_info_of p)) @ ''\<newline>'' @
              ''- **Published**: '' @ published (paper_info_of p) @ ''\<newline>'' @
              ''- **PDF URL**: ['' @ pdf_url (paper_info_of p) @ '']('' @ pdf_url (paper_info_of p) @ '')\<newline>\<newline>''"])
    apply (rule exI [where x = "''---\<newline>\<newline>'' @ concat (map (\<lambda>(k, v). render_paper k v) after)"])
    apply (simp add: render_paper_def)
    done
  with sp rd m s show "\<exists>fs' d info pre post.
         search_papers fs topic [p] = Inr (fs', [get_short_id p]) \<and>
         read_papers_info fs' ?name = Inr d \<and>
         map_of d (get_short_id p) = Some info \<and>
         summary info = paper_summary p \<and>
         get_topic_papers fs' topic =
           Inr (pre @ ''### Summary\<newline>'' @ take 500 (paper_summary p) @ ''...\<newline>\<newline>'' @ post)"
    by blast
qed

theorem get_topic_papers_truncates_long_summary_witness:
  "read_papers_info (example_root example_long_paper) (derive_topic_dir ''ai'') =
     Inr ([] @ (''2103.00003v1'', paper_info_of example_long_paper) # []) \<and>
   500 < length (summary (paper_info_of example_long_paper)) \<and>
   get_topic_papers (example_root example_long_paper) ''ai'' =
     Inr (''# Papers on Ai\<newline>\<newline>Total papers: 1\<newline>\<newline>'' @
          ''## Long\<newline>'' @
          ''- **Paper ID**: 2103.00003v1\<newline>'' @
          ''- **Authors**: D. Fourth\<newline>'' @
          ''- **Published**: 2021-03-03\<newline>'' @
          ''- **PDF URL**: [http://arxiv.org/pdf/2103.00003v1](http://arxiv.org/pdf/2103.00003v1)\<newline>\<newline>'' @
          ''### Summary\<newline>'' @ replicate 500 CHR ''x'' @ ''...\<newline>\<newline>'' @
          ''---\<newline>\<newline>'') \<and>
   lookup_node None (derive_topic_dir ''ai'') \<noteq> Some File \<and>
   info_entry_of None (derive_topic_dir ''ai'') \<noteq> Some Directory \<and>
   info_entry_of None (derive_topic_dir ''ai'') \<noteq> Some (RegularFile Undecodable) \<and>
   500 < length (paper_summary example_long_paper) \<and>
   (\<exists>fs' d info pre post.
      search_papers None ''ai'' [example_long_paper] = Inr (fs', [get_short_id example_long_paper]) \<and>
      read_papers_info fs' (derive_topic_dir ''ai'') = Inr d \<and>
      map_of d (get_short_id example_long_paper) = Some info \<and>
      summary info = replicate 501 CHR ''x'' \<and>
      get_topic_papers fs' ''ai'' =
        Inr (pre @ ''### Summary\<newline>'' @ replicate 500 CHR ''x'' @ ''...\<newline>\<newline>'' @ post))"
proof -
  have h1: "read_papers_info (example_root example_long_paper) (derive_topic_dir ''ai'') =
     Inr ([] @ (''2103.00003v1'', paper_info_of example_long_paper) # [])"
    by code_simp
  have h2: "500 < length (summary (paper_info_of example_long_paper))"
    by (simp add: paper_info_of_def example_long_paper_def)
  have h3: "lookup_node None (derive_topic_dir ''ai'') \<noteq> Some File"
    by (simp add: lookup_node_def)
  have h4: "info_entry_of None (derive_topic_dir ''ai'') \<noteq> Some Directory"
    by (simp add: info_entry_of_def lookup_node_def)
  have h4': "info_entry_of None (derive_topic_dir ''ai'') \<noteq> Some (RegularFile Undecodable)"
    by (simp add: info_entry_of_def lookup_node_def)
  have h5: "500 < length (paper_summary example_long_paper)"
    by (simp add: example_long_paper_def)
  have s: "paper_summary example_long_paper = replicate 501 CHR ''x''"
    by (simp add: example_long_paper_def)
  have hd: "render_header ''ai'' (Suc 0) = ''# Papers on Ai\<newline>\<newline>Total papers: 1\<newline>\<newline>''"
    by code_simp
  have fields: "title (paper_info_of example_long_paper) = ''Long''"
    "join '', '' (authors (paper_info_of example_long_paper)) = ''D. Fourth''"
    "published (paper_info_of example_long_paper) = ''2021-03-03''"
    "pdf_url (paper_info_of example_long_paper) = ''http://arxiv.org/pdf/2103.00003v1''"
    "take 500 (summary (paper_info_of example_long_paper)) = replicate 500 CHR ''x''"
    by (simp_all add: paper_info_of_def example_long_paper_def)
  note inst1 = get_topic_papers_truncates_long_summary
    [of "example_root example_long_paper" "''ai''" "[]" "''2103.00003v1''"
        "paper_info_of example_long_paper" "[]" example_long_paper]
  from inst1 h1 h2
  have a: "get_topic_papers (example_root example_long_paper) ''ai'' =
     Inr (''# Papers on Ai\<newline>\<newline>Total papers: 1\<newline>\<newline>'' @
          ''## Long\<newline>'' @
          ''- **Paper ID**: 2103.00003v1\<newline>'' @
          ''- **Authors**: D. Fourth\<newline>'' @
          ''- **Published**: 2021-03-03\<newline>'' @
          ''- **PDF URL**: [http://arxiv.org/pdf/2103.00003v1](http://arxiv.org/pdf/2103.00003v1)\<newline>\<newline>'' @
          ''### Summary\<newline>'' @ replicate 500 CHR ''x'' @ ''...\<newline>\<newline>'' @
          ''---\<newline>\<newline>'')"
    by (simp add: hd fields)
  note inst2 = get_topic_papers_truncates_long_summary
    [of None "''ai''" "[]" "[]" "paper_info_of example_long_paper" "[]" example_long_paper]
  from inst2 h3 h4 h4' h5
  have b: "\<exists>fs' d info pre post.
      search_papers None ''ai'' [example_long_paper] = Inr (fs', [get_short_id example_long_paper]) \<and>
      read_papers_info fs' (derive_topic_dir ''ai'') = Inr d \<and>
      map_of d (get_short_id example_long_paper) = Some info \<and>
      summary info = paper_summary example_long_paper \<and>
      get_topic_papers fs' ''ai'' =
        Inr (pre @ ''### Summary\<newline>'' @ take 500 (paper_summary example_long_paper) @ ''...\<newline>\<newline>'' @ post)"
    by blast
  have t: "take 500 (replicate 501 CHR ''x'') = replicate 500 CHR ''x''"
    by simp
  from b have b': "\<exists>fs' d info pre post.
      search_papers None ''ai'' [example_long_paper] = Inr (fs', [get_short_id example_long_paper]) \<and>
      read_papers_info fs' (derive_topic_dir ''ai'') = Inr d \<and>
      map_of d (get_short_id example_long_paper) = Some info \<and>
      summary info = replicate 501 CHR ''x'' \<and>
      get_topic_papers fs' ''ai'' =
        Inr (pre @ ''### Summary\<newline>'' @ replicate 500 CHR ''x'' @ ''...\<newline>\<newline>'' @ post)"
    unfolding s t .
  from h1 h2 a h3 h4 h4' h5 b' show ?thesis by blast
qed

text \<open>
  Claim C9, as stated, fails: \<^verbatim>\<open>get_available_folders\<close> tests the topic's file with
  \<^verbatim>\<open>os.path.exists\<close> only and never reads it, so a topic whose file is not JSON is
  listed.
\<close>

theorem get_available_folders_lists_corrupt_file:
  "get_available_folders (Some [(''ai'', Dir (Some (RegularFile NotJson)))]) =
     Inr ''# Available Topics\<newline>\<newline>- ai\<newline>\<newline>Use @ai to access papers in that topic.\<newline>'' \<and>
   read_papers_info (Some [(''ai'', Dir (Some (RegularFile NotJson)))]) ''ai'' = Inl JSONDecodeError"
  by (simp add: get_available_folders_def root_exists_def listdir_def isdir_def info_exists_def
      info_entry_of_def lookup_node_def read_papers_info_def open_read_def json_load_def)

text \<open>
  Claim C9, amended. The listing has one line for every name of the papers root, in the
  order of enumeration, that is a directory and under which \<^verbatim>\<open>papers_info.json\<close>
  exists, whatever it holds; after the lines comes a hint that names the last listed
  topic. When no name qualifies, or the root does not exist, the text is the "No topics
  found." message. The function returns text only: it creates and changes nothing.
\<close>

theorem get_available_folders_lists_existing_files:
  "get_available_folders fs =
     (let listed = filter (\<lambda>name. isdir fs name \<and> info_exists fs name)
                     (case fs of None \<Rightarrow> [] | Some es \<Rightarrow> map fst es)
      in Inr (''# Available Topics\<newline>\<newline>'' @
              (if listed = [] then ''No topics found.\<newline>''
               else concat (map (\<lambda>folder. ''- '' @ folder @ ''\<newline>'') listed) @
                    ''\<newline>Use @'' @ last listed @ '' to access papers in that topic.\<newline>'')))"
  by (cases fs)
     (simp_all add: get_available_folders_def root_exists_def listdir_def
        collect_folders_filter foldl_append_concat Let_def)

theorem get_available_folders_lists_existing_files_witness:
  "get_available_folders
     (Some [(''notes.txt'', File), (''ai'', Dir (Some (RegularFile NotJson))),
            (''empty'', Dir None), (''ml'', Dir (Some Directory))]) =
     Inr ''# Available Topics\<newline>\<newline>- ai\<newline>- ml\<newline>\<newline>Use @ml to access papers in that topic.\<newline>''"
proof -
  have "filter (\<lambda>name. isdir (Some [(''notes.txt'', File), (''ai'', Dir (Some (RegularFile NotJson))),
            (''empty'', Dir None), (''ml'', Dir (Some Directory))]) name \<and>
          info_exists (Some [(''notes.txt'', File), (''ai'', Dir (Some (RegularFile NotJson))),
            (''empty'', Dir None), (''ml'', Dir (Some Directory))]) name)
        (map fst [(''notes.txt'', File), (''ai'', Dir (Some (RegularFile NotJson))),
            (''empty'', Dir None), (''ml'', Dir (Some Directory))]) = [''ai'', ''ml'']"
    by (simp add: isdir_def info_exists_def info_entry_of_def lookup_node_def)
  with get_available_folders_lists_existing_files
    [of "Some [(''notes.txt'', File), (''ai'', Dir (Some (RegularFile NotJson))),
            (''empty'', Dir None), (''ml'', Dir (Some Directory))]"]
  show ?thesis by (simp add: Let_def)
qed

text \<open>
  Claim C10. For every stored record the rendering appends \<^verbatim>\<open>...\<close> to the first 500
  characters of the summary, whatever its length: a summary of at most 500 characters is
  shown whole and still followed by \<^verbatim>\<open>...\<close>.
\<close>

theorem get_topic_papers_ellipsis_unconditional:
  "read_papers_info fs (derive_topic_dir topic) = Inr (before @ (paper_id, info) # after) \<longrightarrow>
     get_topic_papers fs topic =
       Inr (render_header topic (Suc (length before + length after)) @
            concat (map (\<lambda>(k, v). render_paper k v) before) @
            (''## '' @ title info @ ''\<newline>'' @
             ''- **Paper ID**: '' @ paper_id @ ''\<newline>'' @
             ''- **Authors**: '' @ join '', '' (authors info) @ ''\<newline>'' @
             ''- **Published**: '' @ published info @ ''\<newline>'' @
             ''- **PDF URL**: ['' @ pdf_url info @ '']('' @ pdf_url info @ '')\<newline>\<newline>'' @
             ''### Summary\<newline>'' @ take 500 (summary info) @ ''...\<newline>\<newline>'' @
             ''---\<newline>\<newline>'') @
            concat (map (\<lambda>(k, v). render_paper k v) after)) \<and>
     (length (summary info) \<le> 500 \<longrightarrow> take 500 (summary info) @ ''...'' = summary info @ ''...'')"
proof (intro conjI impI)
  assume rd: "read_papers_info fs (derive_topic_dir topic) = Inr (before @ (paper_id, info) # after)"
  from get_topic_papers_record [OF rd]
  show "get_topic_papers fs topic =
       Inr (render_header topic (Suc (length before + length after)) @
            concat (map (\<lambda>(k, v). render_paper k v) before) @
            (''## '' @ title info @ ''\<newline>'' @
             ''- **Paper ID**: '' @ paper_id @ ''\<newline>'' @
             ''- **Authors**: '' @ join '', '' (authors info) @ ''\<newline>'' @
             ''- **Published**: '' @ published info @ ''\<newline>'' @
             ''- **PDF URL**: ['' @ pdf_url info @ '']('' @ pdf_url info @ '')\<newline>\<newline>'' @
             ''### Summary\<newline>'' @ take 500 (summary info) @ ''...\<newline>\<newline>'' @
             ''---\<newline>\<newline>'') @
            concat (map (\<lambda>(k, v). render_paper k v) after))"
    by (simp add: render_paper_def)
next
  assume "length (summary info) \<le> 500"
  then show "take 500 (summary info) @ ''...'' = summary info @ ''...''" by simp
qed

theorem get_topic_papers_ellipsis_unconditional_witness:
  "read_papers_info (example_root example_paper) (derive_topic_dir ''ai'') =
     Inr ([] @ (''2101.00001v1'', paper_info_of example_paper) # []) \<and>
   length (summary (paper_info_of example_paper)) \<le> 500 \<and>
   get_topic_papers (example_root example_paper) ''ai'' =
     Inr (''# Papers on Ai\<newline>\<newline>Total papers: 1\<newline>\<newline>'' @
          ''## Qubits\<newline>'' @
          ''- **Paper ID**: 2101.00001v1\<newline>'' @
          ''- **Authors**: A. Author, B. Writer\<newline>'' @
          ''- **Published**: 2021-01-01\<newline>'' @
          ''- **PDF URL**: [http://arxiv.org/pdf/2101.00001v1](http://arxiv.org/pdf/2101.00001v1)\<newline>\<newline>'' @
          ''### Summary\<newline>'' @ ''Short summary.'' @ ''...\<newline>\<newline>'' @
          ''---\<newline>\<newline>'')"
proof -
  have h1: "read_papers_info (example_root example_paper) (derive_topic_dir ''ai'') =
     Inr ([] @ (''2101.00001v1'', paper_info_of example_paper) # [])"
    by code_simp
  have h2: "length (summary (paper_info_of example_paper)) \<le> 500"
    by (simp add: paper_info_of_def example_paper_def)
  have hd: "render_header ''ai'' (Suc 0) = ''# Papers on Ai\<newline>\<newline>Total papers: 1\<newline>\<newline>''"
    by code_simp
  have fields: "title (paper_info_of example_paper) = ''Qubits''"
    "join '', '' (authors (paper_info_of example_paper)) = ''A. Author, B. Writer''"
    "published (paper_info_of example_paper) = ''2021-01-01''"
    "pdf_url (paper_info_of example_paper) = ''http://arxiv.org/pdf/2101.00001v1''"
    "take 500 (summary (paper_info_of example_paper)) = ''Short summary.''"
    by (simp_all add: paper_info_of_def example_paper_def)
  note inst = get_topic_papers_ellipsis_unconditional
    [of "example_root example_paper" "''ai''" "[]" "''2101.00001v1''"
        "paper_info_of example_paper" "[]"]
  from inst h1
  have "get_topic_papers (example_root example_paper) ''ai'' =
     Inr (''# Papers on Ai\<newline>\<newline>Total papers: 1\<newline>\<newline>'' @
          ''## Qubits\<newline>'' @
          ''- **Paper ID**: 2101.00001v1\<newline>'' @
          ''- **Authors**: A. Author, B. Writer\<newline>'' @
          ''- **Published**: 2021-01-01\<newline>'' @
          ''- **PDF URL**: [http://arxiv.org/pdf/2101.00001v1](http://arxiv.org/pdf/2101.00001v1)\<newline>\<newline>'' @
          ''### Summary\<newline>'' @ ''Short summary.'' @ ''...\<newline>\<newline>'' @
          ''---\<newline>\<newline>'')"
    by (simp add: hd fields)
  with h1 h2 show ?thesis by blast
qed

end
